theory Spec2Isabelle
  imports Complex_Main
begin

section \<open>Squat counter of the pose analyzer (utils.py, class PoseAnalyzer)\<close>

text \<open>
  The development embeds three methods of \<^verbatim>\<open>PoseAnalyzer\<close>:
  \<^verbatim>\<open>calculate_angle\<close>, \<^verbatim>\<open>detect_squat\<close> and \<^verbatim>\<open>reset_counter\<close>.

  Numbers. The integer fields (\<^verbatim>\<open>squat_count\<close>, \<^verbatim>\<open>accuracy_score\<close>) are Python
  integers, modelled as \<open>int\<close>. The angle computation runs on numpy \<^verbatim>\<open>float64\<close> scalars:
  a finite value is the real number it denotes, and every arithmetic operation rounds its
  exact result to the nearest float64 (ties to even), with gradual underflow to zero and
  overflow to infinity. The special values that numpy produces instead of raising are
  kept: a division by zero gives an infinity or, for \<^verbatim>\<open>0/0\<close>, NaN, with a warning and no
  exception, and every ordering comparison with NaN is false. The sign of a zero is not
  modelled; the divisors of this program are never a negative zero.
\<close>

subsection \<open>numpy float64 scalars\<close>

datatype npfloat = Fin real | PInf | NInf | NaN

text \<open>The nearest integer, a tie going to the even one (\<^verbatim>\<open>rint\<close>).\<close>

definition round_half_even :: "real \<Rightarrow> int" where
  "round_half_even v =
     (let f = \<lfloor>v\<rfloor>; d = v - of_int f
      in if d < 1 / 2 then f
         else if 1 / 2 < d then f + 1
         else if even f then f else f + 1)"

text \<open>
  Rounding a real to float64: 53 significant bits, exponents from \<open>-1022\<close> to \<open>1023\<close>.
  The spacing of the floats around \<open>v\<close> is \<open>2\<close> to the power \<open>e - 52\<close>, where \<open>e\<close> is the
  binary exponent of \<open>v\<close>, and \<open>-1022\<close> for the subnormal range; a result of magnitude
  \<open>2 ^ 1024\<close> or more is an infinity.
\<close>

definition float64_round :: "real \<Rightarrow> npfloat" where
  "float64_round v =
     (if v = 0 then Fin 0
      else
        (let e = max (- 1022) \<lfloor>log 2 \<bar>v\<bar>\<rfloor>;
             u = 2 powr (of_int e - 52);
             r = of_int (round_half_even (v / u)) * u
         in if 2 ^ 1024 \<le> \<bar>r\<bar> then (if 0 < v then PInf else NInf) else Fin r))"

text \<open>\<^verbatim>\<open>x + y\<close>\<close>

fun np_add :: "npfloat \<Rightarrow> npfloat \<Rightarrow> npfloat" where
  "np_add NaN _ = NaN"
| "np_add _ NaN = NaN"
| "np_add (Fin a) (Fin b) = float64_round (a + b)"
| "np_add PInf NInf = NaN"
| "np_add NInf PInf = NaN"
| "np_add PInf _ = PInf"
| "np_add _ PInf = PInf"
| "np_add NInf _ = NInf"
| "np_add _ NInf = NInf"

text \<open>\<^verbatim>\<open>x * y\<close>: zero times an infinity is NaN.\<close>

fun np_multiply :: "npfloat \<Rightarrow> npfloat \<Rightarrow> npfloat" where
  "np_multiply NaN _ = NaN"
| "np_multiply _ NaN = NaN"
| "np_multiply (Fin a) (Fin b) = float64_round (a * b)"
| "np_multiply (Fin a) PInf = (if a = 0 then NaN else if 0 < a then PInf else NInf)"
| "np_multiply (Fin a) NInf = (if a = 0 then NaN else if 0 < a then NInf else PInf)"
| "np_multiply PInf (Fin b) = (if b = 0 then NaN else if 0 < b then PInf else NInf)"
| "np_multiply NInf (Fin b) = (if b = 0 then NaN else if 0 < b then NInf else PInf)"
| "np_multiply PInf PInf = PInf"
| "np_multiply PInf NInf = NInf"
| "np_multiply NInf PInf = NInf"
| "np_multiply NInf NInf = PInf"

text \<open>
  \<^verbatim>\<open>x / y\<close> on float64 scalars. No case raises: a zero divisor yields NaN for a zero
  dividend and an infinity otherwise. The divisors of this program are a product of two
  norms and the literals 2 and 10, so a zero divisor is the positive zero.
\<close>

fun np_true_divide :: "npfloat \<Rightarrow> npfloat \<Rightarrow> npfloat" where
  "np_true_divide NaN _ = NaN"
| "np_true_divide _ NaN = NaN"
| "np_true_divide (Fin a) (Fin b) =
     (if b \<noteq> 0 then float64_round (a / b)
      else if a = 0 then NaN
      else if 0 < a then PInf else NInf)"
| "np_true_divide (Fin a) PInf = Fin 0"
| "np_true_divide (Fin a) NInf = Fin 0"
| "np_true_divide PInf (Fin b) = (if 0 \<le> b then PInf else NInf)"
| "np_true_divide NInf (Fin b) = (if 0 \<le> b then NInf else PInf)"
| "np_true_divide PInf PInf = NaN"
| "np_true_divide PInf NInf = NaN"
| "np_true_divide NInf PInf = NaN"
| "np_true_divide NInf NInf = NaN"

text \<open>\<^verbatim>\<open>sqrt\<close>, correctly rounded as IEEE 754 requires.\<close>

fun np_sqrt :: "npfloat \<Rightarrow> npfloat" where
  "np_sqrt (Fin a) = (if a < 0 then NaN else float64_round (sqrt a))"
| "np_sqrt PInf = PInf"
| "np_sqrt NInf = NaN"
| "np_sqrt NaN = NaN"

text \<open>\<^verbatim>\<open>x < y\<close> and \<^verbatim>\<open>x <= y\<close>; \<^verbatim>\<open>x > y\<close> is \<open>np_less y x\<close>.\<close>

fun np_less :: "npfloat \<Rightarrow> npfloat \<Rightarrow> bool" where
  "np_less NaN _ = False"
| "np_less _ NaN = False"
| "np_less (Fin a) (Fin b) = (a < b)"
| "np_less (Fin a) PInf = True"
| "np_less NInf (Fin b) = True"
| "np_less NInf PInf = True"
| "np_less _ _ = False"

fun np_less_equal :: "npfloat \<Rightarrow> npfloat \<Rightarrow> bool" where
  "np_less_equal NaN _ = False"
| "np_less_equal _ NaN = False"
| "np_less_equal (Fin a) (Fin b) = (a \<le> b)"
| "np_less_equal NInf _ = True"
| "np_less_equal _ PInf = True"
| "np_less_equal _ _ = False"

definition np_greater :: "npfloat \<Rightarrow> npfloat \<Rightarrow> bool" where
  "np_greater v w = np_less w v"

text \<open>\<^verbatim>\<open>np.clip(x, lo, hi)\<close>, that is \<^verbatim>\<open>minimum(maximum(x, lo), hi)\<close>; NaN stays NaN.\<close>

fun np_clip :: "npfloat \<Rightarrow> real \<Rightarrow> real \<Rightarrow> npfloat" where
  "np_clip (Fin v) lo hi = Fin (min (max v lo) hi)"
| "np_clip PInf lo hi = Fin hi"
| "np_clip NInf lo hi = Fin lo"
| "np_clip NaN lo hi = NaN"

text \<open>
  \<^verbatim>\<open>np.arccos\<close>: NaN outside \<open>[-1, 1]\<close>. The C library's arccosine is accurate to
  the last place; it is taken as correctly rounded, which it is at \<open>-1\<close>, \<open>0\<close> and \<open>1\<close>.
\<close>

fun np_arccos :: "npfloat \<Rightarrow> npfloat" where
  "np_arccos (Fin v) = (if - 1 \<le> v \<and> v \<le> 1 then float64_round (arccos v) else NaN)"
| "np_arccos _ = NaN"

text \<open>
  \<^verbatim>\<open>np.degrees\<close> multiplies by the float64 constant \<^verbatim>\<open>180.0 / NPY_PI\<close>, where
  \<^verbatim>\<open>NPY_PI\<close> is the float64 nearest to \<open>pi\<close>.
\<close>

definition rad2deg :: npfloat where
  "rad2deg = np_true_divide (Fin 180) (float64_round pi)"

definition np_degrees :: "npfloat \<Rightarrow> npfloat" where
  "np_degrees v = np_multiply v rad2deg"

text \<open>
  \<^verbatim>\<open>round(x, 1)\<close> on a float64 scalar: \<^verbatim>\<open>rint(x * 10) / 10\<close>, each step in float64.
\<close>

fun np_rint :: "npfloat \<Rightarrow> npfloat" where
  "np_rint (Fin v) = Fin (of_int (round_half_even v))"
| "np_rint w = w"

definition py_round1 :: "npfloat \<Rightarrow> npfloat" where
  "py_round1 v = np_true_divide (np_rint (np_multiply v (Fin 10))) (Fin 10)"

subsection \<open>Points and landmarks\<close>

text \<open>
  A point is the two-element list \<^verbatim>\<open>[x, y]\<close> of floats that \<^verbatim>\<open>detect_squat\<close> builds;
  \<^verbatim>\<open>np.array\<close> turns it into a float64 array without changing the values.
\<close>

type_synonym point = "real \<times> real"

type_synonym ndarray2 = "npfloat \<times> npfloat"

text \<open>
  \<^verbatim>\<open>a - b\<close> on the arrays; \<^verbatim>\<open>np.dot\<close>, the sum of the two rounded products (on the
  inputs evaluated below the products or the sum are exact, so a fused multiply-add
  gives the same); \<^verbatim>\<open>np.linalg.norm\<close>, which for a vector is \<^verbatim>\<open>sqrt(x.dot(x))\<close>.
\<close>

definition np_subtract :: "point \<Rightarrow> point \<Rightarrow> ndarray2" where
  "np_subtract p q = (float64_round (fst p - fst q), float64_round (snd p - snd q))"

definition np_dot :: "ndarray2 \<Rightarrow> ndarray2 \<Rightarrow> npfloat" where
  "np_dot p q = np_add (np_multiply (fst p) (fst q)) (np_multiply (snd p) (snd q))"

definition np_linalg_norm :: "ndarray2 \<Rightarrow> npfloat" where
  "np_linalg_norm p = np_sqrt (np_dot p p)"

datatype exn = IndexError

text \<open>
  The body of the \<^verbatim>\<open>try\<close> block of \<^verbatim>\<open>calculate_angle\<close>. On two-element lists of
  floats none of its numpy calls raises, so it always returns a value.
\<close>

definition calculate_angle_try :: "point \<Rightarrow> point \<Rightarrow> point \<Rightarrow> exn + npfloat" where
  "calculate_angle_try point1 point2 point3 =
     (let a = point1; b = point2; c = point3;
          ba = np_subtract a b;
          bc = np_subtract c b;
          cosine_angle =
            np_true_divide (np_dot ba bc)
              (np_multiply (np_linalg_norm ba) (np_linalg_norm bc));
          cosine_angle = np_clip cosine_angle (- 1) 1;
          angle = np_arccos cosine_angle;
          angle_degrees = np_degrees angle
      in Inr angle_degrees)"

text \<open>\<^verbatim>\<open>calculate_angle\<close> with its handler: \<^verbatim>\<open>except Exception: return 180\<close>.\<close>

definition calculate_angle :: "point \<Rightarrow> point \<Rightarrow> point \<Rightarrow> npfloat" where
  "calculate_angle point1 point2 point3 =
     (case calculate_angle_try point1 point2 point3 of
        Inr angle_degrees \<Rightarrow> angle_degrees
      | Inl e \<Rightarrow> Fin 180)"
text \<open>A MediaPipe landmark; only its \<^verbatim>\<open>x\<close> and \<^verbatim>\<open>y\<close> are read.\<close>

record landmark =
  lm_x :: real
  lm_y :: real
  lm_z :: real
  lm_visibility :: real

text \<open>The values of MediaPipe's \<^verbatim>\<open>PoseLandmark\<close> enumeration.\<close>

definition LEFT_HIP :: nat where "LEFT_HIP = 23"
definition RIGHT_HIP :: nat where "RIGHT_HIP = 24"
definition LEFT_KNEE :: nat where "LEFT_KNEE = 25"
definition RIGHT_KNEE :: nat where "RIGHT_KNEE = 26"
definition LEFT_ANKLE :: nat where "LEFT_ANKLE = 27"
definition RIGHT_ANKLE :: nat where "RIGHT_ANKLE = 28"

text \<open>\<^verbatim>\<open>landmarks[i]\<close> for a non-negative index: IndexError out of range.\<close>

definition py_index :: "'a list \<Rightarrow> nat \<Rightarrow> exn + 'a" where
  "py_index xs i = (if i < length xs then Inr (xs ! i) else Inl IndexError)"

text \<open>\<^verbatim>\<open>[landmarks[i].x, landmarks[i].y]\<close>\<close>

definition landmark_point :: "landmark list \<Rightarrow> nat \<Rightarrow> exn + point" where
  "landmark_point landmarks i =
     (case py_index landmarks i of
        Inl e \<Rightarrow> Inl e
      | Inr l \<Rightarrow> Inr (lm_x l, lm_y l))"

subsection \<open>The analyzer state\<close>

record analyzer =
  squat_stage :: string
  squat_count :: int
  last_angle :: npfloat
  feedback_message :: string
  accuracy_score :: int
  frame_skip_counter :: int

text \<open>The squat tracking variables set by \<^verbatim>\<open>__init__\<close>.\<close>

definition init_analyzer :: analyzer where
  "init_analyzer =
     \<lparr>squat_stage = ''up'', squat_count = 0, last_angle = Fin 180,
      feedback_message = ''Ready to start!'', accuracy_score = 0,
      frame_skip_counter = 0\<rparr>"

text \<open>The dictionary returned by \<^verbatim>\<open>detect_squat\<close>.\<close>

record snapshot =
  count :: int
  stage :: string
  angle :: npfloat
  feedback :: string
  accuracy :: int

text \<open>
  The feedback literals, as the bytes of the source file: each ends in a space and the
  UTF-8 bytes of its trailing symbol.
\<close>

definition msg_great :: string where
  "msg_great = ''Great squat! '' @
     [CHR 0xC3, CHR 0xB0, CHR 0xC5, CHR 0xB8, CHR 0xE2, CHR 0x80, CHR 0x99, CHR 0xC2, CHR 0xAA]"

definition msg_depth :: string where
  "msg_depth = ''Perfect depth! Now stand up!''"

definition msg_keep_down :: string where
  "msg_keep_down = ''Keep going down! '' @
     [CHR 0xC3, CHR 0xB0, CHR 0xC5, CHR 0xB8, CHR 0xE2, CHR 0x80, CHR 0x9D, CHR 0xC2, CHR 0xBD]"

definition msg_push_up :: string where
  "msg_push_up = ''Push up! '' @
     [CHR 0xC3, CHR 0xB0, CHR 0xC5, CHR 0xB8, CHR 0xE2, CHR 0x80, CHR 0x9D, CHR 0xC2, CHR 0xBC]"

definition msg_deeper :: string where
  "msg_deeper = ''Squat deeper for better results! '' @
     [CHR 0xC3, CHR 0xB0, CHR 0xC5, CHR 0xB8, CHR 0xE2, CHR 0x80, CHR 0x9C, CHR 0xE2, CHR 0x80,
      CHR 0xB0]"

definition msg_reposition :: string where
  "msg_reposition = ''Position yourself in camera view''"

subsection \<open>detect_squat\<close>

text \<open>
  Lines 105 to 123: the \<^verbatim>\<open>if / elif / elif\<close> chain on the average knee angle.
\<close>

definition squat_transition :: "npfloat \<Rightarrow> analyzer \<Rightarrow> analyzer" where
  "squat_transition avg_knee_angle s =
     (if np_greater avg_knee_angle (Fin 160) then
        (let s1 = (if squat_stage s = ''down''
                   then s\<lparr>squat_count := squat_count s + 1,
                          feedback_message := msg_great,
                          accuracy_score := min 100 (accuracy_score s + 10)\<rparr>
                   else s)
         in s1\<lparr>squat_stage := ''up''\<rparr>)
      else if np_less avg_knee_angle (Fin 90) then
        (let s1 = (if squat_stage s = ''up''
                   then s\<lparr>feedback_message := msg_depth,
                          accuracy_score := min 100 (accuracy_score s + 5)\<rparr>
                   else s)
         in s1\<lparr>squat_stage := ''down''\<rparr>)
      else if np_less_equal (Fin 90) avg_knee_angle \<and> np_less_equal avg_knee_angle (Fin 160) then
        (if squat_stage s = ''up'' \<and> np_less avg_knee_angle (Fin 140)
         then s\<lparr>feedback_message := msg_keep_down\<rparr>
         else if squat_stage s = ''down'' \<and> np_greater avg_knee_angle (Fin 120)
         then s\<lparr>feedback_message := msg_push_up\<rparr>
         else s)
      else s)"

text \<open>Lines 126 to 128: the form feedback, on the stage the chain above has left.\<close>

definition form_feedback :: "npfloat \<Rightarrow> analyzer \<Rightarrow> analyzer" where
  "form_feedback avg_knee_angle s =
     (if np_greater avg_knee_angle (Fin 140) \<and> squat_stage s = ''down''
      then s\<lparr>feedback_message := msg_deeper,
             accuracy_score := max 0 (accuracy_score s - 1)\<rparr>
      else s)"

text \<open>Lines 130 to 136: the returned dictionary.\<close>

definition squat_result :: "npfloat \<Rightarrow> analyzer \<Rightarrow> snapshot" where
  "squat_result avg_knee_angle s =
     \<lparr>count = squat_count s, stage = squat_stage s,
      angle = py_round1 avg_knee_angle, feedback = feedback_message s,
      accuracy = min 100 (max 0 (accuracy_score s))\<rparr>"

text \<open>
  Lines 102 to 136: everything \<^verbatim>\<open>detect_squat\<close> does once the average knee angle is
  known. It returns the updated analyzer and the dictionary.
\<close>

definition squat_update :: "npfloat \<Rightarrow> analyzer \<Rightarrow> analyzer \<times> snapshot" where
  "squat_update avg_knee_angle s =
     (let s1 = s\<lparr>last_angle := avg_knee_angle\<rparr>;
          s2 = squat_transition avg_knee_angle s1;
          s3 = form_feedback avg_knee_angle s2
      in (s3, squat_result avg_knee_angle s3))"

text \<open>Lines 81 to 101: the six landmark reads and the average of the two knee angles.\<close>

definition knee_angles :: "landmark list \<Rightarrow> exn + npfloat" where
  "knee_angles landmarks =
     (case landmark_point landmarks LEFT_HIP of Inl e \<Rightarrow> Inl e | Inr left_hip \<Rightarrow>
     (case landmark_point landmarks LEFT_KNEE of Inl e \<Rightarrow> Inl e | Inr left_knee \<Rightarrow>
     (case landmark_point landmarks LEFT_ANKLE of Inl e \<Rightarrow> Inl e | Inr left_ankle \<Rightarrow>
     (case landmark_point landmarks RIGHT_HIP of Inl e \<Rightarrow> Inl e | Inr right_hip \<Rightarrow>
     (case landmark_point landmarks RIGHT_KNEE of Inl e \<Rightarrow> Inl e | Inr right_knee \<Rightarrow>
     (case landmark_point landmarks RIGHT_ANKLE of Inl e \<Rightarrow> Inl e | Inr right_ankle \<Rightarrow>
        (let left_knee_angle = calculate_angle left_hip left_knee left_ankle;
             right_knee_angle = calculate_angle right_hip right_knee right_ankle
         in Inr (np_true_divide (np_add left_knee_angle right_knee_angle) (Fin 2)))))))))"

text \<open>The dictionary of the handler, lines 138 to 145; the analyzer is not assigned to.\<close>

definition squat_failure :: "analyzer \<Rightarrow> snapshot" where
  "squat_failure s =
     \<lparr>count = squat_count s, stage = squat_stage s, angle = Fin 180,
      feedback = msg_reposition, accuracy = 0\<rparr>"

text \<open>
  \<^verbatim>\<open>detect_squat\<close>. The only statements of its \<^verbatim>\<open>try\<close> block that can raise are the
  landmark reads, and they all come before the first assignment to a field.
\<close>

definition detect_squat :: "landmark list \<Rightarrow> analyzer \<Rightarrow> analyzer \<times> snapshot" where
  "detect_squat landmarks s =
     (case knee_angles landmarks of
        Inl e \<Rightarrow> (s, squat_failure s)
      | Inr avg_knee_angle \<Rightarrow> squat_update avg_knee_angle s)"

subsection \<open>reset_counter\<close>

definition reset_counter :: "analyzer \<Rightarrow> analyzer" where
  "reset_counter s =
     s\<lparr>squat_count := 0, squat_stage := ''up'', accuracy_score := 0,
       feedback_message := ''Ready to start!''\<rparr>"

subsection \<open>Sequences of calls\<close>

text \<open>
  Feeding a sequence of average knee angles, one frame after the other: the analyzer
  after the last frame and the dictionaries returned, in order.
\<close>

fun feed_angles :: "npfloat list \<Rightarrow> analyzer \<Rightarrow> analyzer \<times> snapshot list" where
  "feed_angles [] s = (s, [])"
| "feed_angles (v # vs) s =
     (let (s1, r) = squat_update v s; (s2, rs) = feed_angles vs s1 in (s2, r # rs))"

text \<open>The same for whole frames, each a landmark list given to \<^verbatim>\<open>detect_squat\<close>.\<close>

fun feed_frames :: "landmark list list \<Rightarrow> analyzer \<Rightarrow> analyzer \<times> snapshot list" where
  "feed_frames [] s = (s, [])"
| "feed_frames (f # fs) s =
     (let (s1, r) = detect_squat f s; (s2, rs) = feed_frames fs s1 in (s2, r # rs))"

subsection \<open>Auxiliary notions for the statements\<close>

text \<open>The persisted score is within its bounds.\<close>

definition accuracy_ok :: "analyzer \<Rightarrow> bool" where
  "accuracy_ok s = (0 \<le> accuracy_score s \<and> accuracy_score s \<le> 100)"

text \<open>
  Three frames for the examples: 33 landmarks with the legs straight (both knee angles
  180 up to rounding), 33 landmarks with the legs folded (both knee angles 0), and a
  frame whose list of landmarks stops before the hips.
\<close>

definition lm :: "real \<Rightarrow> real \<Rightarrow> landmark" where
  "lm u v = \<lparr>lm_x = u, lm_y = v, lm_z = 0, lm_visibility = 1\<rparr>"

definition frame_of :: "landmark \<Rightarrow> landmark \<Rightarrow> landmark \<Rightarrow> landmark list" where
  "frame_of hip knee ankle =
     replicate 23 (lm 0 0) @ [hip, hip, knee, knee, ankle, ankle] @ replicate 4 (lm 0 0)"

definition standing_frame :: "landmark list" where
  "standing_frame = frame_of (lm 0 0) (lm 0 1) (lm 0 2)"

definition folded_frame :: "landmark list" where
  "folded_frame = frame_of (lm 1 0) (lm 0 0) (lm 2 0)"

definition short_frame :: "landmark list" where
  "short_frame = replicate 23 (lm 0 0)"

section \<open>Properties\<close>

subsection \<open>Rounding to float64\<close>

lemma round_half_even_of_int [simp]: "round_half_even (of_int n) = n"
  by (simp add: round_half_even_def)

lemma round_half_even_error: "\<bar>of_int (round_half_even v) - v\<bar> \<le> 1 / 2"
  unfolding round_half_even_def Let_def by (auto simp add: abs_le_iff)

lemma round_half_even_small:
  assumes "\<bar>v\<bar> \<le> 1 / 2"
  shows "round_half_even v = 0"
proof -
  have "\<lfloor>v\<rfloor> = 0 \<or> \<lfloor>v\<rfloor> = - 1"
    using assms by (simp add: abs_le_iff) linarith
  then show ?thesis
  proof
    assume "\<lfloor>v\<rfloor> = 0"
    then show ?thesis using assms by (simp add: round_half_even_def abs_le_iff)
  next
    assume f: "\<lfloor>v\<rfloor> = - 1"
    then have "v < 0" by linarith
    then have "v = - (1 / 2) \<or> - (1 / 2) < v"
      using assms by (auto simp add: abs_le_iff)
    then show ?thesis using f by (auto simp add: round_half_even_def)
  qed
qed

lemma float64_round_zero [simp]: "float64_round 0 = Fin 0"
  by (simp add: float64_round_def)

text \<open>Half the smallest subnormal, and everything below it, rounds to zero.\<close>

lemma float64_round_underflow:
  assumes "\<bar>v\<bar> \<le> 1 / 2 ^ 1075"
  shows "float64_round v = Fin 0"
proof (cases "v = 0")
  case True
  then show ?thesis by simp
next
  case False
  have small: "\<bar>v\<bar> < 2 powr (- 1022)"
  proof -
    have "(1::real) / 2 ^ 1075 < 1 / 2 ^ 1022" by simp
    then show ?thesis using assms by (simp add: powr_neg_numeral)
  qed
  have "log 2 \<bar>v\<bar> < - 1022"
    using small False by (simp add: log_less_iff)
  then have "\<lfloor>log 2 \<bar>v\<bar>\<rfloor> \<le> - 1022" by linarith
  then have e: "max (- 1022) \<lfloor>log 2 \<bar>v\<bar>\<rfloor> = - 1022" by simp
  have u: "(2::real) powr (of_int (- 1022) - 52) = 1 / 2 ^ 1074"
    by (simp add: powr_neg_numeral)
  have "\<bar>v / (1 / 2 ^ 1074)\<bar> \<le> 1 / 2"
    using assms by (simp add: abs_mult field_simps)
  then have "round_half_even (v / (1 / 2 ^ 1074)) = 0"
    by (rule round_half_even_small)
  then show ?thesis
    using False unfolding float64_round_def Let_def e u by simp
qed

text \<open>
  A value with at most 53 significant bits and an exponent in range is a float64, and
  rounding leaves it as it is.
\<close>

lemma float64_round_exact:
  assumes "m \<noteq> 0" "\<bar>m\<bar> < 2 ^ 53" "- 1074 \<le> j"
    and "\<bar>of_int m * 2 powr of_int j\<bar> < (2::real) ^ 1024"
  shows "float64_round (of_int m * 2 powr of_int j) = Fin (of_int m * 2 powr of_int j)"
proof -
  define v :: real where "v = of_int m * 2 powr of_int j"
  have vnz: "v \<noteq> 0" using assms(1) by (simp add: v_def)
  have absv: "\<bar>v\<bar> = of_int \<bar>m\<bar> * 2 powr of_int j"
    by (simp add: v_def abs_mult)
  have "(of_int \<bar>m\<bar> :: real) < 2 ^ 53"
    using assms(2) by (metis of_int_less_numeral_power_cancel_iff)
  then have "\<bar>v\<bar> < 2 ^ 53 * 2 powr of_int j"
    unfolding absv by (simp add: mult_strict_right_mono)
  also have "\<dots> = 2 powr (of_int j + 53)"
    by (simp add: powr_add)
  finally have "\<bar>v\<bar> < 2 powr (of_int j + 53)" .
  then have "log 2 \<bar>v\<bar> < of_int j + 53"
    using vnz by (simp add: log_less_iff)
  then have floor_le: "\<lfloor>log 2 \<bar>v\<bar>\<rfloor> \<le> j + 52" by linarith
  define e where "e = max (- 1022) \<lfloor>log 2 \<bar>v\<bar>\<rfloor>"
  have ele: "e \<le> j + 52"
    using floor_le assms(3) by (simp add: e_def)
  define k where "k = nat (j + 52 - e)"
  have kk: "real k = of_int j - (of_int e - 52)"
    using ele by (simp add: k_def)
  have "2 powr of_int j / 2 powr (of_int e - 52) = (2::real) powr real k"
    by (simp add: kk powr_diff)
  also have "\<dots> = 2 ^ k"
    by (simp add: powr_realpow)
  finally have q: "2 powr of_int j / 2 powr (of_int e - 52) = (2::real) ^ k" .
  have "v / 2 powr (of_int e - 52) = of_int m * (2 powr of_int j / 2 powr (of_int e - 52))"
    by (simp add: v_def)
  also have "\<dots> = of_int (m * 2 ^ k)"
    by (simp add: q)
  finally have quot: "v / 2 powr (of_int e - 52) = of_int (m * 2 ^ k)" .
  have again: "of_int (m * 2 ^ k) * 2 powr (of_int e - 52) = v"
    using quot by (simp add: field_simps)
  have "float64_round v = Fin v"
    using vnz assms(4)
    unfolding float64_round_def Let_def e_def [symmetric] quot round_half_even_of_int again
    by (simp add: v_def)
  then show ?thesis by (simp add: v_def)
qed

lemma float64_round_int:
  assumes "\<bar>m\<bar> < 2 ^ 53"
  shows "float64_round (of_int m) = Fin (of_int m)"
proof (cases "m = 0")
  case True
  then show ?thesis by simp
next
  case False
  have "(of_int \<bar>m\<bar> :: real) < 2 ^ 53"
    using assms by (metis of_int_less_numeral_power_cancel_iff)
  also have "\<dots> < 2 ^ 1024" by simp
  finally have "\<bar>of_int m * 2 powr of_int 0\<bar> < (2::real) ^ 1024" by simp
  then show ?thesis
    using float64_round_exact [of m 0] False assms by simp
qed

lemma float64_round_one [simp]: "float64_round 1 = Fin 1"
  using float64_round_int [of 1] by simp

lemma float64_round_neg_one [simp]: "float64_round (- 1) = Fin (- 1)"
  using float64_round_int [of "- 1"] by simp

lemma float64_round_numeral [simp]:
  "(numeral w :: int) < 2 ^ 53 \<Longrightarrow> float64_round (numeral w) = Fin (numeral w)"
  using float64_round_int [of "numeral w"] by simp

lemma float64_round_neg_numeral [simp]:
  "(numeral w :: int) < 2 ^ 53 \<Longrightarrow> float64_round (- numeral w) = Fin (- numeral w)"
  using float64_round_int [of "- numeral w"] by simp

text \<open>In the normal range the relative error of rounding is at most \<open>2\<close> to the \<open>-53\<close>.\<close>

lemma float64_round_bounds:
  assumes "1 \<le> v" "v \<le> 2 ^ 1000"
  shows "\<exists>r. float64_round v = Fin r \<and> v * (1 - 1 / 2 ^ 53) \<le> r \<and> r \<le> v * (1 + 1 / 2 ^ 53)"
proof -
  define e where "e = \<lfloor>log 2 \<bar>v\<bar>\<rfloor>"
  have vpos: "0 < v" using assms(1) by simp
  have "0 \<le> log 2 v" using assms(1) by simp
  then have epos: "0 \<le> e" using vpos by (simp add: e_def)
  then have emax: "max (- 1022) e = e" by simp
  have "of_int e \<le> log 2 v" using vpos by (simp add: e_def)
  then have low: "2 powr of_int e \<le> v"
    using vpos by (simp add: le_log_iff)
  define u :: real where "u = 2 powr (of_int e - 52)"
  have upos: "0 < u" by (simp add: u_def)
  have uhalf: "u / 2 = 2 powr of_int e / 2 ^ 53"
    by (simp add: u_def powr_diff)
  have ule: "u / 2 \<le> v / 2 ^ 53"
    unfolding uhalf using low by (simp add: divide_right_mono)
  define m where "m = round_half_even (v / u)"
  have "\<bar>of_int m - v / u\<bar> \<le> 1 / 2"
    unfolding m_def by (rule round_half_even_error)
  then have "\<bar>of_int m - v / u\<bar> * u \<le> 1 / 2 * u"
    using upos by (simp add: mult_right_mono)
  moreover have "\<bar>of_int m - v / u\<bar> * u = \<bar>of_int m * u - v\<bar>"
  proof -
    have "(of_int m - v / u) * u = of_int m * u - v"
      using upos by (simp add: field_simps)
    then have "\<bar>of_int m * u - v\<bar> = \<bar>of_int m - v / u\<bar> * \<bar>u\<bar>"
      by (simp only: abs_mult [symmetric])
    then show ?thesis using upos by simp
  qed
  ultimately have err: "\<bar>of_int m * u - v\<bar> \<le> v / 2 ^ 53"
    using ule by simp
  then have "of_int m * u - v \<le> v / 2 ^ 53" and "- (v / 2 ^ 53) \<le> of_int m * u - v"
    by linarith+
  then have lo: "v * (1 - 1 / 2 ^ 53) \<le> of_int m * u"
    and hi: "of_int m * u \<le> v * (1 + 1 / 2 ^ 53)"
    by (simp_all add: algebra_simps)
  have "v * (1 + 1 / 2 ^ 53) \<le> v * 2" using vpos by simp
  also have "\<dots> \<le> 2 ^ 1000 * 2" using assms(2) by simp
  also have "\<dots> < (2::real) ^ 1024" by simp
  finally have "of_int m * u < 2 ^ 1024" using hi by simp
  moreover have "0 \<le> v * (1 - 1 / 2 ^ 53)" using vpos by simp
  then have "0 \<le> of_int m * u" using lo by linarith
  ultimately have fin: "\<not> 2 ^ 1024 \<le> \<bar>of_int m * u\<bar>" by simp
  have "float64_round v = Fin (of_int m * u)"
    using vpos fin
    unfolding float64_round_def Let_def e_def [symmetric] emax u_def [symmetric] m_def [symmetric]
    by simp
  then show ?thesis using lo hi by blast
qed

lemma float64_round_near:
  assumes "1 \<le> v" "v \<le> 2 ^ 1000"
  shows "\<exists>r. float64_round v = Fin r \<and> v * (99 / 100) \<le> r \<and> r \<le> v * (101 / 100)"
proof -
  obtain r where r: "float64_round v = Fin r" "v * (1 - 1 / 2 ^ 53) \<le> r"
      "r \<le> v * (1 + 1 / 2 ^ 53)"
    using float64_round_bounds [OF assms] by blast
  have vpos: "0 \<le> v" using assms(1) by simp
  have "v * (99 / 100) \<le> v * (1 - 1 / 2 ^ 53)"
    using vpos by (intro mult_left_mono) simp_all
  moreover have "v * (1 + 1 / 2 ^ 53) \<le> v * (101 / 100)"
    using vpos by (intro mult_left_mono) simp_all
  ultimately show ?thesis using r by (intro exI [of _ r]) linarith
qed

text \<open>The constant of \<^verbatim>\<open>np.degrees\<close> is finite, and close to \<open>180 / pi\<close>.\<close>

lemma rad2deg_finite:
  "\<exists>p c. float64_round pi = Fin p \<and> rad2deg = Fin c \<and> 0 < p \<and> 0 < c \<and>
     pi * (99 / 100) \<le> p \<and> p \<le> pi * (101 / 100) \<and>
     180 * (99 / 100) \<le> p * c \<and> p * c \<le> 180 * (101 / 100)"
proof -
  have "1 \<le> pi" using pi_ge_two by linarith
  moreover have "pi \<le> 2 ^ 1000"
  proof -
    have "(4::real) \<le> 2 ^ 1000" by simp
    then show ?thesis using pi_less_4 by linarith
  qed
  ultimately obtain p where p: "float64_round pi = Fin p" "pi * (99 / 100) \<le> p"
      "p \<le> pi * (101 / 100)"
    using float64_round_near [of pi] by blast
  have plo: "1 < p" using p(2) pi_ge_two by linarith
  have phi: "p < 5" using p(3) pi_less_4 by linarith
  have ppos: "0 < p" using plo by linarith
  have "1 \<le> 180 / p" using phi ppos by (simp add: field_simps)
  moreover have "180 / p \<le> 2 ^ 1000"
  proof -
    have "180 / p \<le> 180" using plo by (simp add: field_simps)
    moreover have "(180::real) \<le> 2 ^ 1000" by simp
    ultimately show ?thesis by linarith
  qed
  ultimately obtain c where c: "float64_round (180 / p) = Fin c" "180 / p * (99 / 100) \<le> c"
      "c \<le> 180 / p * (101 / 100)"
    using float64_round_near [of "180 / p"] by blast
  have rc: "rad2deg = Fin c"
    using ppos by (simp add: rad2deg_def p(1) c(1))
  have "p * (180 / p * (99 / 100)) \<le> p * c"
    using c(2) ppos by (intro mult_left_mono) simp_all
  then have lo: "180 * (99 / 100) \<le> p * c"
    using ppos by simp
  have "p * c \<le> p * (180 / p * (101 / 100))"
    using c(3) ppos by (intro mult_left_mono) simp_all
  then have hi: "p * c \<le> 180 * (101 / 100)"
    using ppos by simp
  have cpos: "0 < c"
  proof -
    have "0 < 180 / p * (99 / 100)" using ppos by simp
    then show ?thesis using c(2) by linarith
  qed
  show ?thesis
    using p rc ppos cpos lo hi by blast
qed

lemmas angle_defs =
  calculate_angle_def calculate_angle_try_def np_subtract_def np_dot_def np_linalg_norm_def
  np_degrees_def

subsection \<open>Field by field: what one update does\<close>

lemma fst_squat_update:
  "fst (squat_update a s) = form_feedback a (squat_transition a (s\<lparr>last_angle := a\<rparr>))"
  by (simp add: squat_update_def Let_def)

lemma snd_squat_update:
  "snd (squat_update a s) = squat_result a (fst (squat_update a s))"
  by (simp add: squat_update_def Let_def)

lemma transition_count:
  "squat_count (squat_transition a s) =
     (if np_greater a (Fin 160) \<and> squat_stage s = ''down'' then squat_count s + 1
      else squat_count s)"
  unfolding squat_transition_def by (simp add: Let_def)

lemma transition_stage:
  "squat_stage (squat_transition a s) =
     (if np_greater a (Fin 160) then ''up''
      else if np_less a (Fin 90) then ''down'' else squat_stage s)"
  unfolding squat_transition_def by (simp add: Let_def)

lemma transition_accuracy:
  "accuracy_score (squat_transition a s) =
     (if np_greater a (Fin 160) then
        (if squat_stage s = ''down'' then min 100 (accuracy_score s + 10) else accuracy_score s)
      else if np_less a (Fin 90) then
        (if squat_stage s = ''up'' then min 100 (accuracy_score s + 5) else accuracy_score s)
      else accuracy_score s)"
  unfolding squat_transition_def by (simp add: Let_def)

lemma transition_last_angle: "last_angle (squat_transition a s) = last_angle s"
  unfolding squat_transition_def by (simp add: Let_def)

lemma transition_frame_skip: "frame_skip_counter (squat_transition a s) = frame_skip_counter s"
  unfolding squat_transition_def by (simp add: Let_def)

lemma form_count: "squat_count (form_feedback a s) = squat_count s"
  unfolding form_feedback_def by simp

lemma form_stage: "squat_stage (form_feedback a s) = squat_stage s"
  unfolding form_feedback_def by simp

lemma form_last_angle: "last_angle (form_feedback a s) = last_angle s"
  unfolding form_feedback_def by simp

lemma form_frame_skip: "frame_skip_counter (form_feedback a s) = frame_skip_counter s"
  unfolding form_feedback_def by simp

lemma form_accuracy:
  "accuracy_score (form_feedback a s) =
     (if np_greater a (Fin 140) \<and> squat_stage s = ''down'' then max 0 (accuracy_score s - 1)
      else accuracy_score s)"
  unfolding form_feedback_def by simp

lemma form_message:
  "feedback_message (form_feedback a s) =
     (if np_greater a (Fin 140) \<and> squat_stage s = ''down'' then msg_deeper
      else feedback_message s)"
  unfolding form_feedback_def by simp

lemma squat_update_count:
  "squat_count (fst (squat_update a s)) =
     (if np_greater a (Fin 160) \<and> squat_stage s = ''down'' then squat_count s + 1
      else squat_count s)"
  by (simp add: fst_squat_update form_count transition_count)

lemma squat_update_stage:
  "squat_stage (fst (squat_update a s)) =
     (if np_greater a (Fin 160) then ''up''
      else if np_less a (Fin 90) then ''down'' else squat_stage s)"
  by (simp add: fst_squat_update form_stage transition_stage)

lemma squat_update_last_angle: "last_angle (fst (squat_update a s)) = a"
  by (simp add: fst_squat_update form_last_angle transition_last_angle)

lemma squat_update_frame_skip:
  "frame_skip_counter (fst (squat_update a s)) = frame_skip_counter s"
  by (simp add: fst_squat_update form_frame_skip transition_frame_skip)

lemma np_less_90_not_greater_140: "np_less a (Fin 90) \<Longrightarrow> \<not> np_greater a (Fin 140)"
  by (cases a) (auto simp add: np_greater_def)

lemma squat_update_accuracy:
  "accuracy_score (fst (squat_update a s)) =
     (if np_greater a (Fin 160) then
        (if squat_stage s = ''down'' then min 100 (accuracy_score s + 10) else accuracy_score s)
      else if np_less a (Fin 90) then
        (if squat_stage s = ''up'' then min 100 (accuracy_score s + 5) else accuracy_score s)
      else if np_greater a (Fin 140) \<and> squat_stage s = ''down'' then max 0 (accuracy_score s - 1)
      else accuracy_score s)"
  using np_less_90_not_greater_140 [of a]
  by (simp add: fst_squat_update form_accuracy form_stage transition_accuracy transition_stage)

lemma fst_feed_angles_Cons:
  "fst (feed_angles (v # vs) s) = fst (feed_angles vs (fst (squat_update v s)))"
  by (simp add: split_def Let_def)

lemma snd_feed_angles_Cons:
  "snd (feed_angles (v # vs) s) =
     snd (squat_update v s) # snd (feed_angles vs (fst (squat_update v s)))"
  by (simp add: split_def Let_def)

subsection \<open>Landmark reads\<close>

lemmas landmark_index_defs =
  LEFT_HIP_def RIGHT_HIP_def LEFT_KNEE_def RIGHT_KNEE_def LEFT_ANKLE_def RIGHT_ANKLE_def

lemma landmark_point_reads:
  "i < length landmarks \<Longrightarrow>
     landmark_point landmarks i = Inr (lm_x (landmarks ! i), lm_y (landmarks ! i))"
  by (simp add: landmark_point_def py_index_def)

lemma knee_angles_fails: "length landmarks \<le> 28 \<Longrightarrow> knee_angles landmarks = Inl IndexError"
  by (simp add: knee_angles_def landmark_index_defs landmark_point_def py_index_def
      split: sum.splits)

lemma knee_angles_reads: "28 < length landmarks \<Longrightarrow> \<exists>v. knee_angles landmarks = Inr v"
  by (simp add: knee_angles_def landmark_index_defs landmark_point_reads Let_def)

lemma knee_angles_frame_of:
  "knee_angles (frame_of hip knee ankle) =
     Inr (np_true_divide
            (np_add (calculate_angle (lm_x hip, lm_y hip) (lm_x knee, lm_y knee)
                       (lm_x ankle, lm_y ankle))
                    (calculate_angle (lm_x hip, lm_y hip) (lm_x knee, lm_y knee)
                       (lm_x ankle, lm_y ankle)))
            (Fin 2))"
  by (simp add: knee_angles_def landmark_index_defs landmark_point_reads frame_of_def
      nth_append Let_def)

text \<open>
  Hip, knee and ankle on a vertical line: the quotient is exactly \<open>-1\<close>, its arccosine
  is the float64 next to \<open>pi\<close>, and the angle in degrees is 180 up to the rounding of
  the two last multiplications.
\<close>

lemma straight_leg_angle:
  "\<exists>d. calculate_angle (0, 0) (0, 1) (0, 2) = Fin d \<and> 176 \<le> d \<and> d \<le> 184"
proof -
  obtain p c where pc: "float64_round pi = Fin p" "rad2deg = Fin c"
      "180 * (99 / 100) \<le> p * c" "p * c \<le> 180 * (101 / 100)"
    using rad2deg_finite by blast
  have "1 \<le> p * c" using pc(3) by linarith
  moreover have "p * c \<le> 2 ^ 1000"
  proof -
    have "(182::real) \<le> 2 ^ 1000" by simp
    then show ?thesis using pc(4) by linarith
  qed
  ultimately obtain d where d: "float64_round (p * c) = Fin d" "p * c * (99 / 100) \<le> d"
      "d \<le> p * c * (101 / 100)"
    using float64_round_near [of "p * c"] by blast
  have "calculate_angle (0, 0) (0, 1) (0, 2) = Fin d"
    by (simp add: angle_defs pc(1,2) d(1))
  moreover have "176 \<le> d" using d(2) pc(3) by linarith
  moreover have "d \<le> 184" using d(3) pc(4) by linarith
  ultimately show ?thesis by blast
qed

lemma knee_angles_standing: "\<exists>v. knee_angles standing_frame = Inr (Fin v) \<and> 160 < v"
proof -
  obtain d where d: "calculate_angle (0, 0) (0, 1) (0, 2) = Fin d" "176 \<le> d" "d \<le> 184"
    using straight_leg_angle by blast
  have "1 \<le> 2 * d" using d(2) by linarith
  moreover have "2 * d \<le> 2 ^ 1000"
  proof -
    have "(368::real) \<le> 2 ^ 1000" by simp
    then show ?thesis using d(3) by linarith
  qed
  ultimately obtain t where t: "float64_round (2 * d) = Fin t" "2 * d * (99 / 100) \<le> t"
      "t \<le> 2 * d * (101 / 100)"
    using float64_round_near [of "2 * d"] by blast
  have tlo: "348 \<le> t"
    using t(2) d(2) by simp
  have thi: "t \<le> 372"
    using t(3) d(3) by simp
  have "1 \<le> t / 2" using tlo by simp
  moreover have "t / 2 \<le> 2 ^ 1000"
  proof -
    have "(372::real) \<le> 2 ^ 1000" by simp
    then show ?thesis using thi by linarith
  qed
  ultimately obtain v where v: "float64_round (t / 2) = Fin v" "t / 2 * (99 / 100) \<le> v"
    using float64_round_near [of "t / 2"] by blast
  have "knee_angles standing_frame = Inr (Fin v)"
    by (simp add: standing_frame_def knee_angles_frame_of lm_def d(1) t(1) v(1))
  moreover have "160 < v" using v(2) tlo by simp
  ultimately show ?thesis by blast
qed

text \<open>Hip and ankle on the same side of the knee: the quotient is 1 and the angle 0.\<close>

lemma knee_angles_folded: "knee_angles folded_frame = Inr (Fin 0)"
proof -
  obtain c where c: "rad2deg = Fin c"
    using rad2deg_finite by blast
  show ?thesis
    by (simp add: folded_frame_def knee_angles_frame_of lm_def angle_defs c)
qed

lemma knee_angles_short: "knee_angles short_frame = Inl IndexError"
  by (simp add: short_frame_def knee_angles_fails)

lemma fst_feed_frames_Cons:
  "fst (feed_frames (f # fs) s) = fst (feed_frames fs (fst (detect_squat f s)))"
  by (simp add: split_def Let_def)

lemma snd_feed_frames_Cons:
  "snd (feed_frames (f # fs) s) =
     snd (detect_squat f s) # snd (feed_frames fs (fst (detect_squat f s)))"
  by (simp add: split_def Let_def)

lemma detect_squat_standing:
  "\<exists>v. 160 < v \<and> (\<forall>s. detect_squat standing_frame s = squat_update (Fin v) s)"
proof -
  obtain v where v: "knee_angles standing_frame = Inr (Fin v)" "160 < v"
    using knee_angles_standing by blast
  have "\<forall>s. detect_squat standing_frame s = squat_update (Fin v) s"
    by (simp add: detect_squat_def v(1))
  then show ?thesis using v(2) by blast
qed

lemma detect_squat_folded: "detect_squat folded_frame s = squat_update (Fin 0) s"
  by (simp add: detect_squat_def knee_angles_folded)

lemma detect_squat_short: "detect_squat short_frame s = (s, squat_failure s)"
  by (simp add: detect_squat_def knee_angles_short)

subsection \<open>calculate_angle on a zero-length vector\<close>

text \<open>
  When the vertex coincides with one of the other two points, the dot product and the
  product of the norms are both zero (or NaN already, when the other vector overflows).
  The division of the two float64 scalars does not raise, so the handler that would
  return 180 is not entered: the quotient is NaN, and clipping, arccos and the conversion
  to degrees keep it.
\<close>

lemma np_multiply_zero_left: "np_multiply (Fin 0) v = Fin 0 \<or> np_multiply (Fin 0) v = NaN"
  by (cases v) simp_all

lemma np_multiply_zero_right: "np_multiply v (Fin 0) = Fin 0 \<or> np_multiply v (Fin 0) = NaN"
  by (cases v) simp_all

lemma np_add_zero_or_nan:
  "v = Fin 0 \<or> v = NaN \<Longrightarrow> w = Fin 0 \<or> w = NaN \<Longrightarrow>
     np_add v w = Fin 0 \<or> np_add v w = NaN"
  by auto

lemma np_true_divide_zero_or_nan:
  "v = Fin 0 \<or> v = NaN \<Longrightarrow> w = Fin 0 \<or> w = NaN \<Longrightarrow> np_true_divide v w = NaN"
  by auto

lemma zero_vector_quotient:
  assumes "p = (Fin 0, Fin 0) \<or> q = (Fin 0, Fin 0)"
  shows "np_true_divide (np_dot p q) (np_multiply (np_linalg_norm p) (np_linalg_norm q)) = NaN"
proof -
  have dot: "np_dot p q = Fin 0 \<or> np_dot p q = NaN"
    using assms np_multiply_zero_left [of "fst q"] np_multiply_zero_left [of "snd q"]
      np_multiply_zero_right [of "fst p"] np_multiply_zero_right [of "snd p"]
    unfolding np_dot_def by (auto intro: np_add_zero_or_nan)
  have "np_linalg_norm p = Fin 0 \<or> np_linalg_norm q = Fin 0"
    using assms by (auto simp add: np_linalg_norm_def np_dot_def)
  then have "np_multiply (np_linalg_norm p) (np_linalg_norm q) = Fin 0 \<or>
      np_multiply (np_linalg_norm p) (np_linalg_norm q) = NaN"
    using np_multiply_zero_left [of "np_linalg_norm q"]
      np_multiply_zero_right [of "np_linalg_norm p"] by auto
  with dot show ?thesis
    by (rule np_true_divide_zero_or_nan)
qed

lemma calculate_angle_zero_vector:
  assumes "a = b \<or> c = b"
  shows "calculate_angle a b c = NaN"
proof -
  have "np_subtract a b = (Fin 0, Fin 0) \<or> np_subtract c b = (Fin 0, Fin 0)"
    using assms by (auto simp add: np_subtract_def)
  then have "np_true_divide (np_dot (np_subtract a b) (np_subtract c b))
      (np_multiply (np_linalg_norm (np_subtract a b)) (np_linalg_norm (np_subtract c b))) = NaN"
    by (rule zero_vector_quotient)
  then show ?thesis
    by (simp add: calculate_angle_def calculate_angle_try_def np_degrees_def Let_def)
qed

text \<open>
  C1. The claim is that \<^verbatim>\<open>calculate_angle(a, b, c)\<close> returns exactly 180, and never
  NaN, when \<open>a = b\<close> or \<open>c = b\<close>. The code returns NaN there: at
  \<open>a = b = (0, 0)\<close>, \<open>c = (1, 0)\<close> and at \<open>a = (1, 0)\<close>, \<open>b = c = (0, 0)\<close> the
  result is NaN, not 180.
\<close>

theorem calculate_angle_degenerate_is_nan:
  "calculate_angle (0, 0) (0, 0) (1, 0) = NaN \<and>
   calculate_angle (1, 0) (0, 0) (0, 0) = NaN \<and>
   calculate_angle (0, 0) (0, 0) (1, 0) \<noteq> Fin 180"
  by (simp add: angle_defs)

subsection \<open>One repetition is counted once\<close>

text \<open>
  C2. From the initial analyzer (stage up, count 0), the average knee angles
  170, 150, 100, 80, 100, 150, 170, fed one frame after the other, leave the repetition
  count at exactly 1: the dictionaries returned show the count 0 for the first six frames
  and 1 for the last, although the angle passes through the zone from 90 to 160 twice.
\<close>

theorem single_rep_counted_once:
  "squat_count
     (fst (feed_angles [Fin 170, Fin 150, Fin 100, Fin 80, Fin 100, Fin 150, Fin 170]
        init_analyzer)) = 1 \<and>
   map count
     (snd (feed_angles [Fin 170, Fin 150, Fin 100, Fin 80, Fin 100, Fin 150, Fin 170]
        init_analyzer)) = [0, 0, 0, 0, 0, 0, 1]"
  by (simp add: fst_feed_angles_Cons snd_feed_angles_Cons snd_squat_update squat_result_def
      squat_update_count squat_update_stage np_greater_def init_analyzer_def
      del: feed_angles.simps(2))

subsection \<open>The standing zone\<close>

text \<open>
  C3. Let the average angle be strictly greater than 160. If the stage was down, the
  update adds exactly 1 to the count, sets the feedback to the completion message
  (\<^verbatim>\<open>Great squat!\<close>), sets the score to \<open>min 100 (score + 10)\<close> and the stage to up,
  and changes nothing else but \<^verbatim>\<open>last_angle\<close>. If the stage was already up, only
  \<^verbatim>\<open>last_angle\<close> changes: count, score and stage stay.
\<close>

theorem standing_after_down_completes_rep:
  assumes "np_greater a (Fin 160)"
  shows "(squat_stage s = ''down'' \<longrightarrow>
           fst (squat_update a s) =
             s\<lparr>squat_stage := ''up'', squat_count := squat_count s + 1, last_angle := a,
               feedback_message := msg_great,
               accuracy_score := min 100 (accuracy_score s + 10)\<rparr>) \<and>
         (squat_stage s = ''up'' \<longrightarrow> fst (squat_update a s) = s\<lparr>last_angle := a\<rparr>)"
  using assms by (simp add: fst_squat_update squat_transition_def form_feedback_def Let_def)

theorem standing_after_down_completes_rep_witness:
  "np_greater (Fin 170) (Fin 160) \<and>
   fst (squat_update (Fin 170)
          (init_analyzer\<lparr>squat_stage := ''down'', squat_count := 2, accuracy_score := 95\<rparr>)) =
     init_analyzer\<lparr>squat_stage := ''up'', squat_count := 3, last_angle := Fin 170,
       feedback_message := msg_great, accuracy_score := 100\<rparr> \<and>
   fst (squat_update (Fin 170) init_analyzer) = init_analyzer\<lparr>last_angle := Fin 170\<rparr>"
proof -
  have h: "np_greater (Fin 170) (Fin 160)"
    by (simp add: np_greater_def)
  show ?thesis
    using h
      standing_after_down_completes_rep [OF h,
        of "init_analyzer\<lparr>squat_stage := ''down'', squat_count := 2, accuracy_score := 95\<rparr>"]
      standing_after_down_completes_rep [OF h, of init_analyzer]
    by (simp add: init_analyzer_def)
qed

subsection \<open>The thresholds 160 and 90\<close>

text \<open>
  C4. An average angle of exactly 160 does not take the standing branch: the count and
  the stage stay as they were, for every analyzer, and the frame is handled as one of the
  transition zone (with the stage down it ends with the form feedback of lines 126 to 128,
  with the stage up nothing but \<^verbatim>\<open>last_angle\<close> changes). An average angle of exactly 90
  does not take the deep-squat branch: stage, count and score stay, and with the stage up
  the feedback is the transition zone's \<^verbatim>\<open>Keep going down!\<close>.
\<close>

theorem boundary_angles_in_transition_zone:
  "squat_count (fst (squat_update (Fin 160) s)) = squat_count s \<and>
   squat_stage (fst (squat_update (Fin 160) s)) = squat_stage s \<and>
   fst (squat_update (Fin 160) s) =
     (if squat_stage s = ''down''
      then s\<lparr>last_angle := Fin 160, feedback_message := msg_deeper,
             accuracy_score := max 0 (accuracy_score s - 1)\<rparr>
      else s\<lparr>last_angle := Fin 160\<rparr>) \<and>
   squat_transition (Fin 160) s =
     (if squat_stage s = ''down'' then s\<lparr>feedback_message := msg_push_up\<rparr> else s) \<and>
   fst (squat_update (Fin 90) s) =
     (if squat_stage s = ''up''
      then s\<lparr>last_angle := Fin 90, feedback_message := msg_keep_down\<rparr>
      else s\<lparr>last_angle := Fin 90\<rparr>)"
  by (simp add: fst_squat_update squat_transition_def form_feedback_def np_greater_def Let_def)

subsection \<open>The form feedback\<close>

text \<open>
  The form feedback reads the stage that the chain of lines 105 to 123 has left. In terms
  of the analyzer before the call it fires exactly when the stage was down and the angle
  is above 140 and not above 160: above 160 the stage has just become up.
\<close>

lemma form_check_fires_iff:
  "(np_greater a (Fin 140) \<and> squat_stage (squat_transition a (s\<lparr>last_angle := a\<rparr>)) = ''down'') =
   (np_greater a (Fin 140) \<and> \<not> np_greater a (Fin 160) \<and> squat_stage s = ''down'')"
  using np_less_90_not_greater_140 [of a] by (auto simp add: transition_stage)

text \<open>
  C5. In every update, once the transition policy has run: if the average angle is
  strictly greater than 140 and the stage is then down, the feedback (in the analyzer
  and in the returned dictionary) is the \<^verbatim>\<open>Squat deeper\<close> message and the score is
  \<open>max 0 (score - 1)\<close>; and in every case the form feedback leaves the stage and the
  count as the transition policy set them.
\<close>

theorem form_check_overrides_feedback:
  "(np_greater a (Fin 140) \<and>
    squat_stage (squat_transition a (s\<lparr>last_angle := a\<rparr>)) = ''down'' \<longrightarrow>
      feedback_message (fst (squat_update a s)) = msg_deeper \<and>
      feedback (snd (squat_update a s)) = msg_deeper \<and>
      accuracy_score (fst (squat_update a s)) =
        max 0 (accuracy_score (squat_transition a (s\<lparr>last_angle := a\<rparr>)) - 1)) \<and>
   squat_stage (fst (squat_update a s)) =
     squat_stage (squat_transition a (s\<lparr>last_angle := a\<rparr>)) \<and>
   squat_count (fst (squat_update a s)) =
     squat_count (squat_transition a (s\<lparr>last_angle := a\<rparr>))"
  by (simp add: snd_squat_update squat_result_def fst_squat_update form_message form_accuracy
      form_stage form_count)

theorem form_check_overrides_feedback_witness:
  "np_greater (Fin 150) (Fin 140) \<and>
   squat_stage
     (squat_transition (Fin 150)
        (init_analyzer\<lparr>squat_stage := ''down'', accuracy_score := 5, last_angle := Fin 150\<rparr>)) =
     ''down'' \<and>
   feedback_message
     (fst (squat_update (Fin 150) (init_analyzer\<lparr>squat_stage := ''down'', accuracy_score := 5\<rparr>))) =
     msg_deeper \<and>
   accuracy_score
     (fst (squat_update (Fin 150) (init_analyzer\<lparr>squat_stage := ''down'', accuracy_score := 5\<rparr>))) =
     4 \<and>
   squat_count
     (fst (squat_update (Fin 150) (init_analyzer\<lparr>squat_stage := ''down'', accuracy_score := 5\<rparr>))) =
     0"
  using form_check_overrides_feedback
    [of "Fin 150" "init_analyzer\<lparr>squat_stage := ''down'', accuracy_score := 5\<rparr>"]
  by (simp add: np_greater_def transition_stage transition_accuracy transition_count
      init_analyzer_def)

subsection \<open>A frame without the landmarks\<close>

text \<open>
  C6. When the landmark reads fail (the list has no entry at one of the indices 23 to 28),
  \<^verbatim>\<open>detect_squat\<close> returns the dictionary with the analyzer's count and stage, the
  angle 180, the feedback \<^verbatim>\<open>Position yourself in camera view\<close> and the accuracy 0, and
  the analyzer is exactly as before the call: no field is assigned, in particular not the
  score and not the count.
\<close>

theorem missing_landmarks_leave_state:
  "length landmarks \<le> 28 \<Longrightarrow>
     detect_squat landmarks s =
       (s, \<lparr>count = squat_count s, stage = squat_stage s, angle = Fin 180,
            feedback = ''Position yourself in camera view'', accuracy = 0\<rparr>)"
  by (simp add: detect_squat_def knee_angles_fails squat_failure_def msg_reposition_def)

theorem missing_landmarks_leave_state_witness:
  "length short_frame \<le> 28 \<and>
   detect_squat short_frame
     (init_analyzer\<lparr>squat_stage := ''down'', squat_count := 3, accuracy_score := 35\<rparr>) =
     (init_analyzer\<lparr>squat_stage := ''down'', squat_count := 3, accuracy_score := 35\<rparr>,
      \<lparr>count = 3, stage = ''down'', angle = Fin 180,
        feedback = ''Position yourself in camera view'', accuracy = 0\<rparr>)"
proof -
  have h: "length short_frame \<le> 28"
    by (simp add: short_frame_def)
  show ?thesis
    using h missing_landmarks_leave_state [OF h,
        of "init_analyzer\<lparr>squat_stage := ''down'', squat_count := 3, accuracy_score := 35\<rparr>"]
    by (simp add: init_analyzer_def)
qed

subsection \<open>The accuracy score stays within 0 and 100\<close>

lemma squat_update_accuracy_ok: "accuracy_ok s \<Longrightarrow> accuracy_ok (fst (squat_update a s))"
  by (simp add: accuracy_ok_def squat_update_accuracy)

lemma squat_update_snapshot_bounds:
  "0 \<le> accuracy (snd (squat_update a s)) \<and> accuracy (snd (squat_update a s)) \<le> 100"
  by (simp add: snd_squat_update squat_result_def)

lemma detect_squat_accuracy_ok: "accuracy_ok s \<Longrightarrow> accuracy_ok (fst (detect_squat f s))"
  by (simp add: detect_squat_def squat_update_accuracy_ok split: sum.splits)

lemma detect_squat_snapshot_bounds:
  "0 \<le> accuracy (snd (detect_squat f s)) \<and> accuracy (snd (detect_squat f s)) \<le> 100"
  by (simp add: detect_squat_def squat_failure_def squat_update_snapshot_bounds
      split: sum.splits)

lemma init_accuracy_ok: "accuracy_ok init_analyzer"
  by (simp add: accuracy_ok_def init_analyzer_def)

lemma feed_frames_accuracy_ok: "accuracy_ok s \<Longrightarrow> accuracy_ok (fst (feed_frames fs s))"
proof (induction fs arbitrary: s)
  case Nil
  then show ?case by simp
next
  case (Cons f fs)
  from Cons.prems have "accuracy_ok (fst (detect_squat f s))"
    by (rule detect_squat_accuracy_ok)
  then have "accuracy_ok (fst (feed_frames fs (fst (detect_squat f s))))"
    by (rule Cons.IH)
  then show ?case by (simp only: fst_feed_frames_Cons)
qed

lemma feed_frames_snapshot_bounds:
  "r \<in> set (snd (feed_frames fs s)) \<Longrightarrow> 0 \<le> accuracy r \<and> accuracy r \<le> 100"
proof (induction fs arbitrary: s)
  case Nil
  then show ?case by simp
next
  case (Cons f fs)
  from Cons.prems
  have "r = snd (detect_squat f s) \<or> r \<in> set (snd (feed_frames fs (fst (detect_squat f s))))"
    by (simp only: snd_feed_frames_Cons list.set insert_iff)
  then show ?case
  proof
    assume "r = snd (detect_squat f s)"
    then show ?thesis using detect_squat_snapshot_bounds [of f s] by simp
  next
    assume "r \<in> set (snd (feed_frames fs (fst (detect_squat f s))))"
    then show ?thesis by (rule Cons.IH)
  qed
qed

lemma feed_angles_accuracy_ok: "accuracy_ok s \<Longrightarrow> accuracy_ok (fst (feed_angles vs s))"
proof (induction vs arbitrary: s)
  case Nil
  then show ?case by simp
next
  case (Cons v vs)
  from Cons.prems have "accuracy_ok (fst (squat_update v s))"
    by (rule squat_update_accuracy_ok)
  then have "accuracy_ok (fst (feed_angles vs (fst (squat_update v s))))"
    by (rule Cons.IH)
  then show ?case by (simp only: fst_feed_angles_Cons)
qed

text \<open>
  Staying at 150 degrees with the stage down: every frame takes one point, down to 0.
\<close>

lemma shallow_run:
  "squat_stage s = ''down'' \<Longrightarrow> 0 \<le> accuracy_score s \<Longrightarrow>
     squat_stage (fst (feed_angles (replicate n (Fin 150)) s)) = ''down'' \<and>
     accuracy_score (fst (feed_angles (replicate n (Fin 150)) s)) =
       max 0 (accuracy_score s - int n)"
proof (induction n arbitrary: s)
  case 0
  then show ?case by simp
next
  case (Suc n)
  let ?t = "fst (squat_update (Fin 150) s)"
  have st: "squat_stage ?t = ''down''"
    using Suc.prems by (simp add: squat_update_stage np_greater_def)
  have ac: "accuracy_score ?t = max 0 (accuracy_score s - 1)"
    using Suc.prems by (simp add: squat_update_accuracy np_greater_def)
  have nn: "0 \<le> accuracy_score ?t"
    using ac by simp
  have "squat_stage (fst (feed_angles (replicate n (Fin 150)) ?t)) = ''down'' \<and>
        accuracy_score (fst (feed_angles (replicate n (Fin 150)) ?t)) =
          max 0 (accuracy_score ?t - int n)"
    using st nn by (rule Suc.IH)
  then show ?case using ac Suc.prems(2)
    by (simp add: fst_feed_angles_Cons del: feed_angles.simps(2))
qed

text \<open>
  Clean repetitions, 80 degrees then 170: each adds 5 and 10 to the score, up to 100, and
  one to the count.
\<close>

lemma clean_reps_run:
  "squat_stage s = ''up'' \<Longrightarrow> accuracy_score s \<le> 100 \<Longrightarrow>
     squat_stage (fst (feed_angles (concat (replicate n [Fin 80, Fin 170])) s)) = ''up'' \<and>
     squat_count (fst (feed_angles (concat (replicate n [Fin 80, Fin 170])) s)) =
       squat_count s + int n \<and>
     accuracy_score (fst (feed_angles (concat (replicate n [Fin 80, Fin 170])) s)) =
       min 100 (accuracy_score s + 15 * int n)"
proof (induction n arbitrary: s)
  case 0
  then show ?case by simp
next
  case (Suc n)
  let ?t = "fst (squat_update (Fin 170) (fst (squat_update (Fin 80) s)))"
  have st: "squat_stage ?t = ''up''"
    by (simp add: squat_update_stage np_greater_def)
  have ct: "squat_count ?t = squat_count s + 1"
    by (simp add: squat_update_count squat_update_stage np_greater_def)
  have ac: "accuracy_score ?t = min 100 (accuracy_score s + 15)"
    using Suc.prems by (simp add: squat_update_accuracy squat_update_stage np_greater_def)
  have le: "accuracy_score ?t \<le> 100"
    using ac by simp
  have "squat_stage (fst (feed_angles (concat (replicate n [Fin 80, Fin 170])) ?t)) = ''up'' \<and>
     squat_count (fst (feed_angles (concat (replicate n [Fin 80, Fin 170])) ?t)) =
       squat_count ?t + int n \<and>
     accuracy_score (fst (feed_angles (concat (replicate n [Fin 80, Fin 170])) ?t)) =
       min 100 (accuracy_score ?t + 15 * int n)"
    using st le by (rule Suc.IH)
  then show ?case using ac ct
    by (simp add: fst_feed_angles_Cons del: feed_angles.simps(2))
qed

text \<open>
  C7. For every sequence of calls of \<^verbatim>\<open>detect_squat\<close> from the initial analyzer, whatever
  the frames, the accuracy of every returned dictionary lies in \<open>[0, 100]\<close>, and so does
  the persisted score; the same holds when any sequence of average angles is fed. The two
  bounds are reached and not passed: after a descent to 80 degrees, \<open>n\<close> frames held at
  150 degrees without rising leave the score at \<open>max 0 (5 - n)\<close>, that is 0 from the fifth
  frame on, and \<open>n\<close> clean repetitions (80 then 170) leave it at \<open>min 100 (15 * n)\<close>, that
  is 100 from the seventh on.
\<close>

theorem accuracy_always_within_bounds:
  "(\<forall>r \<in> set (snd (feed_frames fs init_analyzer)). 0 \<le> accuracy r \<and> accuracy r \<le> 100) \<and>
   0 \<le> accuracy_score (fst (feed_frames fs init_analyzer)) \<and>
   accuracy_score (fst (feed_frames fs init_analyzer)) \<le> 100 \<and>
   0 \<le> accuracy_score (fst (feed_angles vs init_analyzer)) \<and>
   accuracy_score (fst (feed_angles vs init_analyzer)) \<le> 100 \<and>
   accuracy_score (fst (feed_angles (Fin 80 # replicate n (Fin 150)) init_analyzer)) =
     max 0 (5 - int n) \<and>
   accuracy_score (fst (feed_angles (concat (replicate n [Fin 80, Fin 170])) init_analyzer)) =
     min 100 (15 * int n)"
proof -
  have a: "\<forall>r \<in> set (snd (feed_frames fs init_analyzer)). 0 \<le> accuracy r \<and> accuracy r \<le> 100"
    using feed_frames_snapshot_bounds by blast
  have b: "accuracy_ok (fst (feed_frames fs init_analyzer))"
    using init_accuracy_ok by (rule feed_frames_accuracy_ok)
  have c: "accuracy_ok (fst (feed_angles vs init_analyzer))"
    using init_accuracy_ok by (rule feed_angles_accuracy_ok)
  let ?d = "fst (squat_update (Fin 80) init_analyzer)"
  have d1: "squat_stage ?d = ''down''"
    by (simp add: squat_update_stage np_greater_def)
  have d2: "accuracy_score ?d = 5"
    by (simp add: squat_update_accuracy np_greater_def init_analyzer_def)
  have d: "accuracy_score (fst (feed_angles (Fin 80 # replicate n (Fin 150)) init_analyzer)) =
     max 0 (5 - int n)"
    using shallow_run [of ?d n] d1 d2
    by (simp add: fst_feed_angles_Cons del: feed_angles.simps(2))
  have e: "accuracy_score
      (fst (feed_angles (concat (replicate n [Fin 80, Fin 170])) init_analyzer)) =
     min 100 (15 * int n)"
    using clean_reps_run [of init_analyzer n] by (simp add: init_analyzer_def)
  show ?thesis using a b c d e by (simp add: accuracy_ok_def)
qed

theorem accuracy_always_within_bounds_witness:
  "map accuracy
     (snd (feed_frames [standing_frame, folded_frame, short_frame, standing_frame]
        init_analyzer)) = [0, 5, 0, 15] \<and>
   accuracy_score
     (fst (feed_frames [standing_frame, folded_frame, short_frame, standing_frame]
        init_analyzer)) = 15 \<and>
   accuracy_score (fst (feed_angles (Fin 80 # replicate 7 (Fin 150)) init_analyzer)) = 0 \<and>
   accuracy_score (fst (feed_angles (concat (replicate 7 [Fin 80, Fin 170])) init_analyzer)) =
     100"
proof -
  obtain v where v: "160 < v" "\<And>s. detect_squat standing_frame s = squat_update (Fin v) s"
    using detect_squat_standing by blast
  have frames: "map accuracy
     (snd (feed_frames [standing_frame, folded_frame, short_frame, standing_frame]
        init_analyzer)) = [0, 5, 0, 15]"
    using v(1)
    by (simp add: snd_feed_frames_Cons v(2) detect_squat_folded
        detect_squat_short squat_failure_def snd_squat_update squat_result_def
        squat_update_accuracy squat_update_stage np_greater_def init_analyzer_def
        del: feed_frames.simps(2))
  have final: "accuracy_score
     (fst (feed_frames [standing_frame, folded_frame, short_frame, standing_frame]
        init_analyzer)) = 15"
    using v(1)
    by (simp add: fst_feed_frames_Cons v(2) detect_squat_folded
        detect_squat_short squat_update_accuracy squat_update_stage np_greater_def
        init_analyzer_def del: feed_frames.simps(2))
  show ?thesis
    using frames final
      accuracy_always_within_bounds
        [of "[standing_frame, folded_frame, short_frame, standing_frame]" "[Fin 80]" 7]
    by simp
qed

subsection \<open>reset_counter\<close>

text \<open>
  C8. After any sequence of calls of \<^verbatim>\<open>detect_squat\<close> from any analyzer,
  \<^verbatim>\<open>reset_counter\<close> leaves the count 0, the stage up, the score 0 and the feedback
  \<^verbatim>\<open>Ready to start!\<close>, and a second \<^verbatim>\<open>reset_counter\<close> changes nothing.
\<close>

theorem reset_counter_initial_values:
  "squat_count (reset_counter (fst (feed_frames fs s))) = 0 \<and>
   squat_stage (reset_counter (fst (feed_frames fs s))) = ''up'' \<and>
   accuracy_score (reset_counter (fst (feed_frames fs s))) = 0 \<and>
   feedback_message (reset_counter (fst (feed_frames fs s))) = ''Ready to start!'' \<and>
   reset_counter (reset_counter (fst (feed_frames fs s))) = reset_counter (fst (feed_frames fs s))"
  by (simp add: reset_counter_def)

text \<open>
  C10. \<^verbatim>\<open>reset_counter\<close> does not assign \<^verbatim>\<open>last_angle\<close>: after it the field holds what
  it held before, that is the average knee angle of the most recent update, or 180 when
  the analyzer is the initial one.
\<close>

theorem reset_counter_keeps_last_angle:
  "last_angle (reset_counter s) = last_angle s \<and>
   last_angle (reset_counter init_analyzer) = Fin 180 \<and>
   last_angle (reset_counter (fst (squat_update a s))) = a"
  by (simp add: reset_counter_def init_analyzer_def squat_update_last_angle)

subsection \<open>calculate_angle on collinear points\<close>

text \<open>
  Squaring a coordinate difference of \<open>2\<close> to the \<open>-600\<close> underflows: the exact square
  lies below half the smallest subnormal float64 and rounds to zero.
\<close>

lemma tiny_is_float64:
  "float64_round (2 powr - 600) = Fin (2 powr - 600) \<and>
   float64_round (- (2 powr - 600)) = Fin (- (2 powr - 600))"
proof -
  have small: "(2::real) powr - 600 < 2 ^ 1024"
  proof -
    have "(2::real) powr - 600 \<le> 2 powr 0" by (intro powr_mono) simp_all
    also have "\<dots> < 2 ^ 1024" by simp
    finally show ?thesis .
  qed
  have "float64_round (of_int 1 * 2 powr of_int (- 600)) = Fin (of_int 1 * 2 powr of_int (- 600))"
    by (rule float64_round_exact) (use small in simp_all)
  moreover
  have "float64_round (of_int (- 1) * 2 powr of_int (- 600)) =
      Fin (of_int (- 1) * 2 powr of_int (- 600))"
    by (rule float64_round_exact) (use small in simp_all)
  ultimately show ?thesis by simp
qed

lemma tiny_square_underflows:
  "float64_round (2 powr - 600 * 2 powr - 600) = Fin 0 \<and>
   float64_round (- (2 powr - 600) * 2 powr - 600) = Fin 0 \<and>
   float64_round (- (2 powr - 600) * - (2 powr - 600)) = Fin 0"
proof -
  have sq: "(2::real) powr - 600 * 2 powr - 600 = 1 / 2 ^ 1200"
    by (simp add: powr_add [symmetric] powr_neg_numeral)
  have "(1::real) / 2 ^ 1200 \<le> 1 / 2 ^ 1075" by simp
  then have "\<bar>(2::real) powr - 600 * 2 powr - 600\<bar> \<le> 1 / 2 ^ 1075"
    unfolding sq by simp
  then have "float64_round (2 powr - 600 * 2 powr - 600) = Fin 0"
    and "float64_round (- (2 powr - 600 * 2 powr - 600)) = Fin 0"
    by (simp_all add: float64_round_underflow)
  then show ?thesis by simp
qed

text \<open>
  C9. The claim is that \<^verbatim>\<open>calculate_angle\<close> returns 180 for any three distinct collinear
  points with the vertex strictly between the other two, and in general an angle in
  \<open>[0, 180]\<close>. The code returns NaN at \<open>a = (-t, 0)\<close>, \<open>b = (0, 0)\<close>, \<open>c = (t, 0)\<close> with
  \<open>t\<close> the float64 \<open>2\<close> to the \<open>-600\<close>: the three points are distinct and collinear and
  \<open>b\<close> lies strictly between \<open>a\<close> and \<open>c\<close>, but the squares underflow, so the dot product
  and both norms are zero, the quotient is \<^verbatim>\<open>0/0\<close>, and, as on a zero-length vector, no
  exception reaches the handler that would return 180.
\<close>

theorem calculate_angle_collinear_underflow_is_nan:
  "calculate_angle (- (2 powr - 600), 0) (0, 0) (2 powr - 600, 0) = NaN \<and>
   (- (2 powr - 600), 0) \<noteq> ((0, 0) :: point) \<and>
   (2 powr - 600, 0) \<noteq> ((0, 0) :: point) \<and>
   (0, 0) = ((1 / 2) * - (2 powr - 600) + (1 / 2) * 2 powr - 600, (0::real))"
proof -
  have ba: "np_subtract (- (2 powr - 600), 0) (0, 0) = (Fin (- (2 powr - 600)), Fin 0)"
    using tiny_is_float64 by (simp add: np_subtract_def)
  have bc: "np_subtract (2 powr - 600, 0) (0, 0) = (Fin (2 powr - 600), Fin 0)"
    using tiny_is_float64 by (simp add: np_subtract_def)
  have dot: "np_dot (Fin (- (2 powr - 600)), Fin 0) (Fin (2 powr - 600), Fin 0) = Fin 0"
    using tiny_square_underflows by (simp add: np_dot_def)
  have na: "np_linalg_norm (Fin (- (2 powr - 600)), Fin 0) = Fin 0"
    using tiny_square_underflows by (simp add: np_linalg_norm_def np_dot_def)
  have nc: "np_linalg_norm (Fin (2 powr - 600), Fin 0) = Fin 0"
    using tiny_square_underflows by (simp add: np_linalg_norm_def np_dot_def)
  have "calculate_angle (- (2 powr - 600), 0) (0, 0) (2 powr - 600, 0) = NaN"
    by (simp add: calculate_angle_def calculate_angle_try_def np_degrees_def ba bc dot na nc)
  then show ?thesis by simp
qed

subsection \<open>The clip and an infinite quotient\<close>

text \<open>
  With \<open>a = (-s, 0)\<close>, \<open>b = (0, 0)\<close>, \<open>c = (t, 0)\<close>, \<open>s\<close> the float64 \<open>2\<close> to the \<open>-540\<close>
  and \<open>t\<close> the float64 \<open>2\<close> to the \<open>-500\<close>, the dot product is the subnormal \<open>- s t\<close>, the
  square of \<open>s\<close> underflows and the product of the norms is zero. The quotient is minus
  infinity, which \<^verbatim>\<open>np.clip\<close> turns into \<open>-1\<close>: the result is a finite angle near 180.
  Without the clip the arccosine of minus infinity would be NaN.
\<close>

lemma power_of_two_is_float64:
  assumes "- 1074 \<le> j" "j \<le> 0"
  shows "float64_round (2 powr of_int j) = Fin (2 powr of_int j)"
    and "float64_round (- (2 powr of_int j)) = Fin (- (2 powr of_int j))"
proof -
  have small: "(2::real) powr of_int j < 2 ^ 1024"
  proof -
    have "(2::real) powr of_int j \<le> 2 powr 0"
      using assms(2) by (intro powr_mono) simp_all
    also have "\<dots> < 2 ^ 1024" by simp
    finally show ?thesis .
  qed
  have "float64_round (of_int 1 * 2 powr of_int j) = Fin (of_int 1 * 2 powr of_int j)"
    by (rule float64_round_exact) (use small assms(1) in simp_all)
  then show "float64_round (2 powr of_int j) = Fin (2 powr of_int j)" by simp
  have "float64_round (of_int (- 1) * 2 powr of_int j) = Fin (of_int (- 1) * 2 powr of_int j)"
    by (rule float64_round_exact) (use small assms(1) in simp_all)
  then show "float64_round (- (2 powr of_int j)) = Fin (- (2 powr of_int j))" by simp
qed

lemma calculate_angle_infinite_quotient_clipped:
  "\<exists>d. calculate_angle (- (2 powr - 540), 0) (0, 0) (2 powr - 500, 0) = Fin d \<and>
     176 \<le> d \<and> d \<le> 184"
proof -
  have s: "float64_round (- (2 powr - 540)) = Fin (- (2 powr - 540))"
    using power_of_two_is_float64(2) [of "- 540"] by simp
  have t: "float64_round (2 powr - 500) = Fin (2 powr - 500)"
    using power_of_two_is_float64(1) [of "- 500"] by simp
  have st: "float64_round (- (2 powr - 540 * 2 powr - 500)) = Fin (- (2 powr - 1040))"
  proof -
    have "- ((2::real) powr - 540 * 2 powr - 500) = - (2 powr - 1040)"
      by (simp add: powr_add [symmetric])
    then show ?thesis
      using power_of_two_is_float64(2) [of "- 1040"] by simp
  qed
  have ss: "float64_round (2 powr - 540 * 2 powr - 540) = Fin 0"
  proof -
    have "(2::real) powr - 540 * 2 powr - 540 = 1 / 2 ^ 1080"
      by (simp add: powr_add [symmetric] powr_neg_numeral)
    moreover have "(1::real) / 2 ^ 1080 \<le> 1 / 2 ^ 1075" by simp
    ultimately have "\<bar>(2::real) powr - 540 * 2 powr - 540\<bar> \<le> 1 / 2 ^ 1075"
      by simp
    then show ?thesis by (rule float64_round_underflow)
  qed
  have tt: "float64_round (2 powr - 500 * 2 powr - 500) = Fin (2 powr - 1000)"
  proof -
    have "(2::real) powr - 500 * 2 powr - 500 = 2 powr - 1000"
      by (simp add: powr_add [symmetric])
    then show ?thesis
      using power_of_two_is_float64(1) [of "- 1000"] by simp
  qed
  have root: "sqrt (2 powr - 1000) = 2 powr - 500"
  proof -
    have "sqrt (2 powr - 1000) = (2 powr - 1000) powr (1 / 2)"
      by (simp add: powr_half_sqrt)
    also have "\<dots> = 2 powr - 500"
      by (simp add: powr_powr)
    finally show ?thesis .
  qed
  have ba: "np_subtract (- (2 powr - 540), 0) (0, 0) = (Fin (- (2 powr - 540)), Fin 0)"
    using s by (simp add: np_subtract_def)
  have bc: "np_subtract (2 powr - 500, 0) (0, 0) = (Fin (2 powr - 500), Fin 0)"
    using t by (simp add: np_subtract_def)
  have neg: "float64_round (- (2 powr - 1040)) = Fin (- (2 powr - 1040))"
    using power_of_two_is_float64(2) [of "- 1040"] by simp
  have pos: "float64_round (2 powr - 1000) = Fin (2 powr - 1000)"
    using power_of_two_is_float64(1) [of "- 1000"] by simp
  have dot: "np_dot (Fin (- (2 powr - 540)), Fin 0) (Fin (2 powr - 500), Fin 0) =
      Fin (- (2 powr - 1040))"
    by (simp add: np_dot_def st neg)
  have na: "np_linalg_norm (Fin (- (2 powr - 540)), Fin 0) = Fin 0"
    by (simp add: np_linalg_norm_def np_dot_def ss)
  have nc: "np_linalg_norm (Fin (2 powr - 500), Fin 0) = Fin (2 powr - 500)"
    by (simp add: np_linalg_norm_def np_dot_def tt pos root t)
  have quotient: "np_true_divide (Fin (- (2 powr - 1040)))
      (np_multiply (Fin 0) (Fin (2 powr - 500))) = NInf"
    by simp
  obtain p c where pc: "float64_round pi = Fin p" "rad2deg = Fin c"
      "180 * (99 / 100) \<le> p * c" "p * c \<le> 180 * (101 / 100)"
    using rad2deg_finite by blast
  have "1 \<le> p * c" using pc(3) by linarith
  moreover have "p * c \<le> 2 ^ 1000"
  proof -
    have "(182::real) \<le> 2 ^ 1000" by simp
    then show ?thesis using pc(4) by linarith
  qed
  ultimately obtain d where d: "float64_round (p * c) = Fin d" "p * c * (99 / 100) \<le> d"
      "d \<le> p * c * (101 / 100)"
    using float64_round_near [of "p * c"] by blast
  have "calculate_angle (- (2 powr - 540), 0) (0, 0) (2 powr - 500, 0) = Fin d"
    unfolding calculate_angle_def calculate_angle_try_def Let_def ba bc dot na nc quotient
    by (simp add: np_degrees_def pc(1,2) d(1))
  moreover have "176 \<le> d" using d(2) pc(3) by linarith
  moreover have "d \<le> 184" using d(3) pc(4) by linarith
  ultimately show ?thesis by blast
qed

end
